theory Spec2Isabelle
  imports Complex_Main
begin

section \<open>The readiness poller \<open>wait_for_ready\<close>\<close>

subsection \<open>Collection status and the observable effects of a run\<close>

text \<open>
  The object returned by \<^verbatim>\<open>client.document.aget_collection\<close>: of its fields the
  poller reads the two counters (Python integers) and the status string.
\<close>

record collection =
  document_count :: int
  document_embedded_count :: int
  status :: string

text \<open>
  The store is outside the program. It is modelled by the sequence of responses it
  gives: \<open>env i\<close> is the answer to the \<open>i\<close>-th status fetch (counting from 0).
  Every fetch is taken to return a status. The function has no \<^verbatim>\<open>try\<close>: an exception
  raised inside the client library would leave it at that point, and is not modelled.
\<close>

type_synonym responses = "nat \<Rightarrow> collection"

text \<open>
  The effects of the poller, in the order in which they happen: building the client,
  fetching the status of the named collection, printing a line, sleeping for a number
  of seconds.
\<close>

datatype event = Connect string string | Fetch string | Print string | Sleep nat

record run_state =
  fetched :: nat
  trace :: "event list"

subsection \<open>Formatting the progress line\<close>

definition digit_char :: "nat \<Rightarrow> char" where
  "digit_char d = ''0123456789'' ! d"

fun str_nat :: "nat \<Rightarrow> string" where
  "str_nat n = (if n < 10 then [digit_char n] else str_nat (n div 10) @ [digit_char (n mod 10)])"

declare str_nat.simps [simp del]

definition str_int :: "int \<Rightarrow> string" where
  "str_int i = (if i < 0 then CHR ''-'' # str_nat (nat (- i)) else str_nat (nat i))"

definition progress_line :: "collection \<Rightarrow> string" where
  "progress_line c =
     ''Embedding status: '' @ str_int (document_embedded_count c) @ ''/''
       @ str_int (document_count c) @ '' documents embedded''"

subsection \<open>The loop\<close>

text \<open>
  One pass through the body of \<^verbatim>\<open>while True\<close>: fetch, print, sleep one second, then
  test the status. The second component tells whether \<^verbatim>\<open>break\<close> was taken.
\<close>

definition loop_body :: "responses \<Rightarrow> string \<Rightarrow> run_state \<Rightarrow> run_state \<times> bool" where
  "loop_body env collection_name s =
     (let c = env (fetched s);
          s1 = s\<lparr>fetched := Suc (fetched s), trace := trace s @ [Fetch collection_name]\<rparr>;
          s2 = s1\<lparr>trace := trace s1 @ [Print (progress_line c)]\<rparr>;
          s3 = s2\<lparr>trace := trace s2 @ [Sleep 1]\<rparr>
      in (s3, status c = ''ready''))"

text \<open>The loop has no bound, so it is a partial function: \<open>None\<close> is a run that never returns.\<close>

partial_function (option) wait_loop :: "responses \<Rightarrow> string \<Rightarrow> run_state \<Rightarrow> run_state option" where
  "wait_loop env collection_name s =
     (case loop_body env collection_name s of
        (s', brk) \<Rightarrow> if brk then Some s' else wait_loop env collection_name s')"

definition ZEP_API_URL :: string where
  "ZEP_API_URL = ''http://localhost:8000''"

definition ZEP_API_KEY :: string where
  "ZEP_API_KEY = ''<optional_key>''"

definition wait_for_ready :: "responses \<Rightarrow> string \<Rightarrow> run_state option" where
  "wait_for_ready env collection_name =
     wait_loop env collection_name \<lparr>fetched = 0, trace = [Connect ZEP_API_URL ZEP_API_KEY]\<rparr>"

subsection \<open>Reading a trace\<close>

fun printed :: "event list \<Rightarrow> string list" where
  "printed [] = []"
| "printed (Print l # es) = l # printed es"
| "printed (e # es) = printed es"

fun slept :: "event list \<Rightarrow> nat" where
  "slept [] = 0"
| "slept (Sleep n # es) = n + slept es"
| "slept (e # es) = slept es"

fun fetches :: "event list \<Rightarrow> nat" where
  "fetches [] = 0"
| "fetches (Fetch c # es) = Suc (fetches es)"
| "fetches (e # es) = fetches es"

text \<open>The events of the \<open>i\<close>-th pass, and of the passes \<open>a, \<dots>, b - 1\<close>.\<close>

definition poll_events :: "responses \<Rightarrow> string \<Rightarrow> nat \<Rightarrow> event list" where
  "poll_events env collection_name i =
     [Fetch collection_name, Print (progress_line (env i)), Sleep 1]"

definition polls_events :: "responses \<Rightarrow> string \<Rightarrow> nat \<Rightarrow> nat \<Rightarrow> event list" where
  "polls_events env collection_name a b =
     concat (map (poll_events env collection_name) [a..<b])"

subsection \<open>Response sequences used as concrete inputs\<close>

text \<open>A store that answers with the listed responses in turn and then repeats the last one.\<close>

definition responses_of :: "collection list \<Rightarrow> responses" where
  "responses_of cs i = (if i < length cs then cs ! i else last cs)"

text \<open>
  The first recorded run of the notebook printed 0/402, 0/402, 402/402 and returned.
  The status strings are not printed; the last one was \<open>ready\<close>, the others are
  taken to be \<open>pending\<close>.
\<close>

definition recorded_run :: responses where
  "recorded_run = responses_of
     [\<lparr>document_count = 402, document_embedded_count = 0, status = ''pending''\<rparr>,
      \<lparr>document_count = 402, document_embedded_count = 0, status = ''pending''\<rparr>,
      \<lparr>document_count = 402, document_embedded_count = 402, status = ''ready''\<rparr>]"

text \<open>A store that never finishes embedding.\<close>

definition never_ready :: responses where
  "never_ready = (\<lambda>i. \<lparr>document_count = 402, document_embedded_count = 0, status = ''pending''\<rparr>)"

text \<open>A store that reports \<open>ready\<close> at once although nothing is embedded.\<close>

definition ready_unembedded :: responses where
  "ready_unembedded = (\<lambda>i. \<lparr>document_count = 402, document_embedded_count = 0, status = ''ready''\<rparr>)"

text \<open>The same statuses as \<open>ready_unembedded\<close>, other counts.\<close>

definition ready_embedded :: responses where
  "ready_embedded = (\<lambda>i. \<lparr>document_count = 402, document_embedded_count = 402, status = ''ready''\<rparr>)"


section \<open>The query client\<close>

text \<open>
  The notebook calls \<^verbatim>\<open>vs.asimilarity_search_with_relevance_scores(query, k=3)\<close> and
  \<^verbatim>\<open>vs.asearch(query, search_type="similarity", metadata=filter, k=3)\<close> on a
  \<^verbatim>\<open>ZepVectorStore\<close>. The methods themselves are not among the source files; only
  these calls and their recorded outputs are.
\<close>

text \<open>
  Modelled from the spec: a Document, "opaque text content plus a key-value metadata
  mapping (string keys, arbitrary values)". The values that occur in the notebook are
  strings (the \<open>source\<close> of a chunk), and so are the values here.
\<close>

record document =
  page_content :: string
  metadata :: "(string \<times> string) list"

text \<open>
  Modelled from the spec: the metadata filter, "a structured predicate over a document's
  metadata tree (path-query style, e.g. equality tests on nested fields)". The notebook
  passes \<^verbatim>\<open>$[*] ? (@.source == '...')\<close>, an equality test on one field, which is
  the one form of filter modelled.
\<close>

datatype metadata_filter = FieldEquals string string

fun matches :: "metadata_filter \<Rightarrow> document \<Rightarrow> bool" where
  "matches (FieldEquals key v) d = (map_of (metadata d) key = Some v)"

text \<open>Modelled from the spec: the filter is optional; without one every document passes.\<close>

definition passes :: "metadata_filter option \<Rightarrow> document \<Rightarrow> bool" where
  "passes filt d = (case filt of None \<Rightarrow> True | Some p \<Rightarrow> matches p d)"

text \<open>Modelled from the spec: the optional relevance-score floor of a similarity search.\<close>

definition above :: "real option \<Rightarrow> real \<Rightarrow> bool" where
  "above min_score sc = (case min_score of None \<Rightarrow> True | Some t \<Rightarrow> t \<le> sc)"

text \<open>
  Modelled from the spec: the similarity search of the external store, whose
  implementation is missing from the source files: "(query text, k, optional
  relevance-score floor, optional metadata filter) \<rightarrow> ranked results", "an ordered sequence
  of Search Results, ordered by descending relevance", a Search Result being a document
  with its relevance score ("higher = more similar"). The score the store computes from
  its embeddings is a parameter, \<open>relevance query d\<close>; it is a real number here, which
  orders scores as the floating-point comparison does (no NaN). Documents with the same
  score keep their order in the collection. The re-ranked (MMR) mode is not modelled.
\<close>

definition similarity_search ::
  "(string \<Rightarrow> document \<Rightarrow> real) \<Rightarrow> document list \<Rightarrow> string \<Rightarrow> nat \<Rightarrow> real option
     \<Rightarrow> metadata_filter option \<Rightarrow> (document \<times> real) list" where
  "similarity_search relevance docs query k min_score filt =
     take k (sort_key (\<lambda>r. - snd r)
       (filter (\<lambda>r. passes filt (fst r) \<and> above min_score (snd r))
          (map (\<lambda>d. (d, relevance query d)) docs)))"

text \<open>
  Modelled from the spec: \<^verbatim>\<open>asimilarity_search_with_relevance_scores(query, k)\<close>, missing
  from the source files: a similarity search without floor or filter, returning each
  document with its score.
\<close>

definition asimilarity_search_with_relevance_scores ::
  "(string \<Rightarrow> document \<Rightarrow> real) \<Rightarrow> document list \<Rightarrow> string \<Rightarrow> nat
     \<Rightarrow> (document \<times> real) list" where
  "asimilarity_search_with_relevance_scores relevance docs query k =
     similarity_search relevance docs query k None None"

text \<open>
  Modelled from the spec: \<^verbatim>\<open>asearch(query, search_type="similarity", metadata, k)\<close>,
  missing from the source files: a similarity search with an optional metadata filter,
  returning the documents only.
\<close>

definition asearch_similarity ::
  "(string \<Rightarrow> document \<Rightarrow> real) \<Rightarrow> document list \<Rightarrow> string \<Rightarrow> nat
     \<Rightarrow> metadata_filter option \<Rightarrow> document list" where
  "asearch_similarity relevance docs query k filt =
     map fst (similarity_search relevance docs query k None filt)"

subsection \<open>Orderings of a list of scores\<close>

fun descending :: "real list \<Rightarrow> bool" where
  "descending (x # y # zs) = (y \<le> x \<and> descending (y # zs))"
| "descending xs = True"

fun strictly_descending :: "real list \<Rightarrow> bool" where
  "strictly_descending (x # y # zs) = (y < x \<and> strictly_descending (y # zs))"
| "strictly_descending xs = True"

subsection \<open>Collections used as concrete inputs\<close>

text \<open>The two books the notebook loads.\<close>

definition babbage_source :: string where
  "babbage_source = ''https://www.gutenberg.org/cache/epub/71292/pg71292.txt''"

definition holmes_source :: string where
  "holmes_source = ''https://www.gutenberg.org/files/48320/48320-0.txt''"

definition chunk :: "string \<Rightarrow> string \<Rightarrow> document" where
  "chunk text src = \<lparr>page_content = text, metadata = [(''source'', src)]\<rparr>"

text \<open>
  The three chunks returned by the recorded query "what is the structure of our solar
  system?", each shortened to its first words, stored in another order than the one they
  were returned in, with the scores the notebook printed.
\<close>

definition babbage_chunks :: "document list" where
  "babbage_chunks =
     [chunk ''tabulate the motions of the four satellites of Jupiter'' babbage_source,
      chunk ''the scheme of notation thus applied'' babbage_source,
      chunk ''Tables necessary to determine the places of the planets'' babbage_source]"

definition recorded_scores :: "string \<Rightarrow> document \<Rightarrow> real" where
  "recorded_scores query d =
     (if page_content d = ''tabulate the motions of the four satellites of Jupiter''
        then 0.8976143854195493
      else if page_content d = ''the scheme of notation thus applied''
        then 0.889982614061763
      else if page_content d = ''Tables necessary to determine the places of the planets''
        then 0.8998482592744614
      else 0)"

text \<open>A collection in which the same text was loaded from two sources.\<close>

definition twin_chunks :: "document list" where
  "twin_chunks =
     [chunk ''Tables necessary to determine the places of the planets'' babbage_source,
      chunk ''Tables necessary to determine the places of the planets'' holmes_source]"

text \<open>
  The chunks of the two books that the recorded query "Was he interested in astronomy?"
  returned, without and with the filter on \<open>source\<close>. The notebook does not print their
  scores; the scores below are chosen so that the ranking is the recorded one.
\<close>

definition two_books :: "document list" where
  "two_books =
     [chunk ''the light shining upon his strong-set aquiline features'' holmes_source,
      chunk ''by that body to Mr Babbage'' babbage_source,
      chunk ''I glanced at the books upon the table'' holmes_source,
      chunk ''possess all knowledge which is likely to be useful'' holmes_source,
      chunk ''in all its relations; but above all, with Astronomy'' babbage_source]"

definition astronomy_scores :: "string \<Rightarrow> document \<Rightarrow> real" where
  "astronomy_scores query d =
     (if page_content d = ''by that body to Mr Babbage'' then 0.85
      else if page_content d = ''possess all knowledge which is likely to be useful'' then 0.84
      else if page_content d = ''in all its relations; but above all, with Astronomy'' then 0.83
      else if page_content d = ''the light shining upon his strong-set aquiline features'' then 0.80
      else if page_content d = ''I glanced at the books upon the table'' then 0.79
      else 0)"


section \<open>Properties of the poller\<close>

subsection \<open>The loop, pass by pass\<close>

lemma loop_body_eq:
  "loop_body env nm s =
     (\<lparr>fetched = Suc (fetched s), trace = trace s @ poll_events env nm (fetched s)\<rparr>,
      status (env (fetched s)) = ''ready'')"
  by (simp add: loop_body_def poll_events_def Let_def)

lemma polls_events_single: "polls_events env nm a (Suc a) = poll_events env nm a"
  by (simp add: polls_events_def)

lemma polls_events_step:
  "a < b \<Longrightarrow> polls_events env nm a b = poll_events env nm a @ polls_events env nm (Suc a) b"
  by (simp add: polls_events_def upt_conv_Cons)

lemma wait_loop_break:
  "status (env (fetched s)) = ''ready'' \<Longrightarrow>
   wait_loop env nm s =
     Some \<lparr>fetched = Suc (fetched s), trace = trace s @ poll_events env nm (fetched s)\<rparr>"
  by (subst wait_loop.simps) (simp add: loop_body_eq)

lemma wait_loop_continue:
  "status (env (fetched s)) \<noteq> ''ready'' \<Longrightarrow>
   wait_loop env nm s =
     wait_loop env nm \<lparr>fetched = Suc (fetched s), trace = trace s @ poll_events env nm (fetched s)\<rparr>"
  by (subst wait_loop.simps) (simp add: loop_body_eq)

lemma wait_loop_first_ready:
  "status (env (fetched s + j)) = ''ready'' \<Longrightarrow>
   \<forall>i<j. status (env (fetched s + i)) \<noteq> ''ready'' \<Longrightarrow>
   wait_loop env nm s =
     Some \<lparr>fetched = Suc (fetched s + j),
           trace = trace s @ polls_events env nm (fetched s) (Suc (fetched s + j))\<rparr>"
proof (induction j arbitrary: s)
  case 0
  then show ?case
    by (simp add: wait_loop_break polls_events_single)
next
  case (Suc j)
  let ?s1 = "\<lparr>fetched = Suc (fetched s), trace = trace s @ poll_events env nm (fetched s)\<rparr>"
  from Suc.prems(2) have now: "status (env (fetched s)) \<noteq> ''ready''"
    by (metis add.right_neutral zero_less_Suc)
  have rdy: "status (env (fetched ?s1 + j)) = ''ready''"
    using Suc.prems(1) by simp
  have nrdy: "\<forall>i<j. status (env (fetched ?s1 + i)) \<noteq> ''ready''"
  proof (intro allI impI)
    fix i assume "i < j"
    then have "Suc i < Suc j" by simp
    with Suc.prems(2) have "status (env (fetched s + Suc i)) \<noteq> ''ready''" by blast
    then show "status (env (fetched ?s1 + i)) \<noteq> ''ready''" by simp
  qed
  have "wait_loop env nm s = wait_loop env nm ?s1"
    using now by (rule wait_loop_continue)
  also have "\<dots> = Some \<lparr>fetched = Suc (fetched ?s1 + j),
      trace = trace ?s1 @ polls_events env nm (fetched ?s1) (Suc (fetched ?s1 + j))\<rparr>"
    using rdy nrdy by (rule Suc.IH)
  also have "\<dots> = Some \<lparr>fetched = Suc (fetched s + Suc j),
      trace = trace s @ polls_events env nm (fetched s) (Suc (fetched s + Suc j))\<rparr>"
    by (simp add: polls_events_step [of "fetched s" "Suc (Suc (fetched s + j))"])
  finally show ?case .
qed

lemma wait_loop_returns_ready:
  assumes ret: "wait_loop env nm s = Some s'"
  shows "fetched s < fetched s' \<and> status (env (fetched s' - 1)) = ''ready''"
proof (rule wait_loop.raw_induct
    [where P = "\<lambda>env nm s s'. fetched s < fetched s' \<and> status (env (fetched s' - 1)) = ''ready''",
     OF _ ret])
  fix wl :: "responses \<Rightarrow> string \<Rightarrow> run_state \<Rightarrow> run_state option"
    and e :: responses and c :: string and a b :: run_state
  assume IH: "\<And>e c a b. wl e c a = Some b \<Longrightarrow>
      fetched a < fetched b \<and> status (e (fetched b - 1)) = ''ready''"
  assume body: "(case loop_body e c a of
      (a', brk) \<Rightarrow> if brk then Some a' else wl e c a') = Some b"
  show "fetched a < fetched b \<and> status (e (fetched b - 1)) = ''ready''"
  proof (cases "status (e (fetched a)) = ''ready''")
    case True
    with body show ?thesis by (auto simp: loop_body_eq)
  next
    case False
    with body have "wl e c \<lparr>fetched = Suc (fetched a),
        trace = trace a @ poll_events e c (fetched a)\<rparr> = Some b"
      by (simp add: loop_body_eq)
    from IH [OF this] show ?thesis by auto
  qed
qed

lemma wait_loop_diverges:
  "\<forall>n\<ge>fetched s. status (env n) \<noteq> ''ready'' \<Longrightarrow> wait_loop env nm s = None"
proof (rule ccontr)
  assume nr: "\<forall>n\<ge>fetched s. status (env n) \<noteq> ''ready''"
  assume "wait_loop env nm s \<noteq> None"
  then obtain s' where "wait_loop env nm s = Some s'" by blast
  from wait_loop_returns_ready [OF this]
  have "fetched s \<le> fetched s' - 1" "status (env (fetched s' - 1)) = ''ready''" by auto
  with nr show False by blast
qed


lemma wait_loop_SomeD:
  assumes ret: "wait_loop env nm s = Some s'"
  shows "\<exists>j. status (env (fetched s + j)) = ''ready'' \<and>
             (\<forall>i<j. status (env (fetched s + i)) \<noteq> ''ready'') \<and>
             s' = \<lparr>fetched = Suc (fetched s + j),
                   trace = trace s @ polls_events env nm (fetched s) (Suc (fetched s + j))\<rparr>"
proof -
  define R where "R = (\<lambda>j. status (env (fetched s + j)) = ''ready'')"
  from wait_loop_returns_ready [OF ret]
  have "R (fetched s' - 1 - fetched s)" by (simp add: R_def)
  then have ex: "\<exists>j. R j" ..
  define j where "j = (LEAST j. R j)"
  have Rj: "R j" unfolding j_def using ex by (rule LeastI_ex)
  have below: "\<forall>i<j. \<not> R i" unfolding j_def using not_less_Least by blast
  have "wait_loop env nm s = Some \<lparr>fetched = Suc (fetched s + j),
      trace = trace s @ polls_events env nm (fetched s) (Suc (fetched s + j))\<rparr>"
    using Rj below unfolding R_def by (rule wait_loop_first_ready)
  with ret Rj below show ?thesis unfolding R_def by auto
qed

lemma printed_append: "printed (xs @ ys) = printed xs @ printed ys"
  by (induction xs rule: printed.induct) simp_all

lemma slept_append: "slept (xs @ ys) = slept xs + slept ys"
  by (induction xs rule: slept.induct) simp_all

lemma fetches_append: "fetches (xs @ ys) = fetches xs + fetches ys"
  by (induction xs rule: fetches.induct) simp_all

lemma polls_events_snoc:
  "a \<le> b \<Longrightarrow> polls_events env nm a (Suc b) = polls_events env nm a b @ poll_events env nm b"
  by (simp add: polls_events_def)

lemma printed_polls_events:
  "a \<le> b \<Longrightarrow> printed (polls_events env nm a b) = map (\<lambda>i. progress_line (env i)) [a..<b]"
proof (induction b)
  case 0
  then show ?case by (simp add: polls_events_def)
next
  case (Suc b)
  show ?case
  proof (cases "a = Suc b")
    case True
    then show ?thesis by (simp add: polls_events_def)
  next
    case False
    with Suc.prems have le: "a \<le> b" by simp
    then show ?thesis
      using Suc.IH by (simp add: polls_events_snoc printed_append poll_events_def)
  qed
qed

lemma slept_polls_events: "a \<le> b \<Longrightarrow> slept (polls_events env nm a b) = b - a"
proof (induction b)
  case 0
  then show ?case by (simp add: polls_events_def)
next
  case (Suc b)
  show ?case
  proof (cases "a = Suc b")
    case True
    then show ?thesis by (simp add: polls_events_def)
  next
    case False
    with Suc.prems have le: "a \<le> b" by simp
    then show ?thesis
      using Suc.IH by (simp add: polls_events_snoc slept_append poll_events_def)
  qed
qed

lemma fetches_polls_events: "a \<le> b \<Longrightarrow> fetches (polls_events env nm a b) = b - a"
proof (induction b)
  case 0
  then show ?case by (simp add: polls_events_def)
next
  case (Suc b)
  show ?case
  proof (cases "a = Suc b")
    case True
    then show ?thesis by (simp add: polls_events_def)
  next
    case False
    with Suc.prems have le: "a \<le> b" by simp
    then show ?thesis
      using Suc.IH by (simp add: polls_events_snoc fetches_append poll_events_def)
  qed
qed

lemma wait_for_ready_first_ready:
  assumes "status (env n) = ''ready''" and "\<forall>i<n. status (env i) \<noteq> ''ready''"
  shows "wait_for_ready env nm =
    Some \<lparr>fetched = Suc n, trace = Connect ZEP_API_URL ZEP_API_KEY # polls_events env nm 0 (Suc n)\<rparr>"
  unfolding wait_for_ready_def
  using wait_loop_first_ready [of env "\<lparr>fetched = 0, trace = [Connect ZEP_API_URL ZEP_API_KEY]\<rparr>" n nm] assms
  by simp

lemma wait_for_ready_SomeD:
  assumes "wait_for_ready env nm = Some s'"
  shows "\<exists>n. status (env n) = ''ready'' \<and> (\<forall>i<n. status (env i) \<noteq> ''ready'') \<and>
    s' = \<lparr>fetched = Suc n, trace = Connect ZEP_API_URL ZEP_API_KEY # polls_events env nm 0 (Suc n)\<rparr>"
  using wait_loop_SomeD [OF assms [unfolded wait_for_ready_def]] by simp

lemma wait_for_ready_diverges:
  "\<forall>n. status (env n) \<noteq> ''ready'' \<Longrightarrow> wait_for_ready env nm = None"
  unfolding wait_for_ready_def by (rule wait_loop_diverges) simp


subsection \<open>Evaluating the concrete inputs\<close>

lemma recorded_run_simps:
  "recorded_run 0 = \<lparr>document_count = 402, document_embedded_count = 0, status = ''pending''\<rparr>"
  "recorded_run (Suc 0) = \<lparr>document_count = 402, document_embedded_count = 0, status = ''pending''\<rparr>"
  "recorded_run 2 = \<lparr>document_count = 402, document_embedded_count = 402, status = ''ready''\<rparr>"
  by (simp_all add: recorded_run_def responses_of_def)

lemma less_two_cases: "(\<forall>i<2. P i) = (P 0 \<and> P (Suc 0))"
  by (auto simp: numeral_2_eq_2 less_Suc_eq)

lemma le_two_cases: "(\<forall>i\<le>2. P i) = (P 0 \<and> P (Suc 0) \<and> P 2)"
  by (auto simp: numeral_2_eq_2 le_Suc_eq)

lemma upt_three: "[0..<3] = [0, Suc 0, 2]"
  by (simp add: upt_rec numeral_3_eq_3 numeral_2_eq_2)

lemma progress_line_recorded:
  "progress_line \<lparr>document_count = 402, document_embedded_count = 0, status = st\<rparr>
     = ''Embedding status: 0/402 documents embedded''"
  "progress_line \<lparr>document_count = 402, document_embedded_count = 402, status = st\<rparr>
     = ''Embedding status: 402/402 documents embedded''"
  by (simp_all add: progress_line_def str_int_def str_nat.simps digit_char_def)

lemma polls_events_recorded:
  "polls_events recorded_run nm 0 3 =
     [Fetch nm, Print ''Embedding status: 0/402 documents embedded'', Sleep 1,
      Fetch nm, Print ''Embedding status: 0/402 documents embedded'', Sleep 1,
      Fetch nm, Print ''Embedding status: 402/402 documents embedded'', Sleep 1]"
  by (simp add: polls_events_def poll_events_def upt_three recorded_run_simps
      progress_line_recorded)

subsection \<open>Return at the first ready response\<close>

text \<open>
  Claim C1: let the store report \<open>ready\<close> exactly when the embedded count equals the
  document count, and let poll \<open>n\<close> be the first whose response has equal counts. Then
  \<open>wait_for_ready\<close> returns, having fetched the status exactly \<open>n + 1\<close> times: its trace is
  the connection followed by the passes \<open>0, \<dots>, n\<close> and nothing else, so it neither
  returns before poll \<open>n\<close> nor polls after it. That the embedded count grows
  monotonically is not needed.
\<close>

theorem wait_for_ready_returns_at_first_equality:
  assumes inv: "\<forall>i\<le>n. (status (env i) = ''ready'') =
                  (document_embedded_count (env i) = document_count (env i))"
    and eq: "document_embedded_count (env n) = document_count (env n)"
    and first: "\<forall>i<n. document_embedded_count (env i) \<noteq> document_count (env i)"
  shows "wait_for_ready env nm =
    Some \<lparr>fetched = Suc n,
          trace = Connect ZEP_API_URL ZEP_API_KEY # polls_events env nm 0 (Suc n)\<rparr>
    \<and> fetches (polls_events env nm 0 (Suc n)) = Suc n"
proof -
  from inv eq have rdy: "status (env n) = ''ready''" by simp
  from inv first have nrdy: "\<forall>i<n. status (env i) \<noteq> ''ready''" by simp
  from rdy nrdy show ?thesis
    by (simp add: wait_for_ready_first_ready fetches_polls_events)
qed

text \<open>On the recorded run the poller returns after the third fetch, with the recorded output.\<close>

theorem wait_for_ready_returns_at_first_equality_witness:
  "wait_for_ready recorded_run ''babbage'' =
    Some \<lparr>fetched = 3,
          trace = [Connect ''http://localhost:8000'' ''<optional_key>'',
      Fetch ''babbage'', Print ''Embedding status: 0/402 documents embedded'', Sleep 1,
      Fetch ''babbage'', Print ''Embedding status: 0/402 documents embedded'', Sleep 1,
      Fetch ''babbage'', Print ''Embedding status: 402/402 documents embedded'', Sleep 1]\<rparr>"
  using wait_for_ready_returns_at_first_equality [of 2 recorded_run "''babbage''"]
  by (simp add: le_two_cases less_two_cases recorded_run_simps polls_events_recorded
      ZEP_API_URL_def ZEP_API_KEY_def)

subsection \<open>No return while documents remain unembedded\<close>



subsection \<open>No bound on the number of polls\<close>

text \<open>
  Claim C5: the poller has no retry cap and no timeout. It never returns exactly when no
  response ever reports \<open>ready\<close>; it returns exactly when some response does; and however
  late the first \<open>ready\<close> response comes, at poll \<open>n\<close>, the poller is still polling then
  and returns after \<open>n + 1\<close> fetches.
\<close>

theorem wait_for_ready_returns_iff_ready:
  "(wait_for_ready env nm = None) = (\<forall>n. status (env n) \<noteq> ''ready'')
   \<and> ((\<exists>s'. wait_for_ready env nm = Some s') = (\<exists>n. status (env n) = ''ready''))
   \<and> (status (env n) = ''ready'' \<and> (\<forall>i<n. status (env i) \<noteq> ''ready'') \<longrightarrow>
        map_option fetched (wait_for_ready env nm) = Some (Suc n))"
proof -
  have a: "(wait_for_ready env nm = None) = (\<forall>n. status (env n) \<noteq> ''ready'')"
  proof
    assume none: "wait_for_ready env nm = None"
    show "\<forall>n. status (env n) \<noteq> ''ready''"
    proof (rule ccontr)
      assume "\<not> (\<forall>n. status (env n) \<noteq> ''ready'')"
      then have ex: "\<exists>n. status (env n) = ''ready''" by blast
      define m where "m = (LEAST n. status (env n) = ''ready'')"
      have "status (env m) = ''ready''" unfolding m_def using ex by (rule LeastI_ex)
      moreover have "\<forall>i<m. status (env i) \<noteq> ''ready''"
        unfolding m_def using not_less_Least by blast
      ultimately have "wait_for_ready env nm \<noteq> None"
        by (simp add: wait_for_ready_first_ready)
      with none show False by simp
    qed
  next
    assume "\<forall>n. status (env n) \<noteq> ''ready''"
    then show "wait_for_ready env nm = None" by (rule wait_for_ready_diverges)
  qed
  then have b: "(\<exists>s'. wait_for_ready env nm = Some s') = (\<exists>n. status (env n) = ''ready'')"
    by (metis not_None_eq)
  have c: "status (env n) = ''ready'' \<and> (\<forall>i<n. status (env i) \<noteq> ''ready'') \<longrightarrow>
        map_option fetched (wait_for_ready env nm) = Some (Suc n)"
  proof
    assume "status (env n) = ''ready'' \<and> (\<forall>i<n. status (env i) \<noteq> ''ready'')"
    then have "wait_for_ready env nm = Some \<lparr>fetched = Suc n,
        trace = Connect ZEP_API_URL ZEP_API_KEY # polls_events env nm 0 (Suc n)\<rparr>"
      by (simp add: wait_for_ready_first_ready)
    then show "map_option fetched (wait_for_ready env nm) = Some (Suc n)" by simp
  qed
  from a b c show ?thesis by blast
qed

text \<open>A store that stays \<open>pending\<close> keeps the poller forever; the recorded run takes three polls.\<close>

theorem wait_for_ready_returns_iff_ready_witness:
  "wait_for_ready never_ready ''babbage'' = None
   \<and> map_option fetched (wait_for_ready recorded_run ''babbage'') = Some 3"
  using wait_for_ready_returns_iff_ready [of never_ready "''babbage''" 0]
    wait_for_ready_returns_iff_ready [of recorded_run "''babbage''" 2]
  by (simp add: never_ready_def recorded_run_simps less_two_cases)

subsection \<open>One progress line per poll\<close>

text \<open>
  Claim C8: every pass through the loop prints exactly one line, made of the embedded
  count and the document count of the response fetched in that same pass, and fetches
  once; hence a run that returns after \<open>n\<close> polls has printed exactly \<open>n\<close> lines, the
  \<open>i\<close>-th being the progress line of the \<open>i\<close>-th response.
\<close>

theorem wait_for_ready_one_line_per_poll:
  "printed (trace (fst (loop_body env nm s))) =
      printed (trace s) @
        [''Embedding status: '' @ str_int (document_embedded_count (env (fetched s))) @ ''/''
           @ str_int (document_count (env (fetched s))) @ '' documents embedded'']
   \<and> fetched (fst (loop_body env nm s)) = Suc (fetched s)
   \<and> (\<forall>s'. wait_for_ready env nm = Some s' \<longrightarrow>
         printed (trace s') = map (\<lambda>i. progress_line (env i)) [0..<fetched s'] \<and>
         length (printed (trace s')) = fetched s' \<and>
         fetches (trace s') = fetched s')"
proof -
  have a: "printed (trace (fst (loop_body env nm s))) =
      printed (trace s) @
        [''Embedding status: '' @ str_int (document_embedded_count (env (fetched s))) @ ''/''
           @ str_int (document_count (env (fetched s))) @ '' documents embedded'']"
    by (simp add: loop_body_eq printed_append poll_events_def progress_line_def)
  have b: "fetched (fst (loop_body env nm s)) = Suc (fetched s)"
    by (simp add: loop_body_eq)
  have c: "printed (trace s') = map (\<lambda>i. progress_line (env i)) [0..<fetched s'] \<and>
         length (printed (trace s')) = fetched s' \<and> fetches (trace s') = fetched s'"
    if "wait_for_ready env nm = Some s'" for s'
  proof -
    from wait_for_ready_SomeD [OF that] obtain n where
      s': "s' = \<lparr>fetched = Suc n,
        trace = Connect ZEP_API_URL ZEP_API_KEY # polls_events env nm 0 (Suc n)\<rparr>"
      by blast
    have p: "printed (polls_events env nm 0 (Suc n)) =
        map (\<lambda>i. progress_line (env i)) [0..<Suc n]"
      by (rule printed_polls_events) simp
    have f: "fetches (polls_events env nm 0 (Suc n)) = Suc n - 0"
      by (rule fetches_polls_events) simp
    from s' p f show ?thesis by simp
  qed
  from a b c show ?thesis by blast
qed

text \<open>The lines of the recorded run are the three lines the notebook shows.\<close>

theorem wait_for_ready_one_line_per_poll_witness:
  "wait_for_ready recorded_run ''babbage'' \<noteq> None
   \<and> printed (trace (the (wait_for_ready recorded_run ''babbage''))) =
      [''Embedding status: 0/402 documents embedded'',
       ''Embedding status: 0/402 documents embedded'',
       ''Embedding status: 402/402 documents embedded'']"
proof -
  define X where "X = \<lparr>fetched = 3,
      trace = Connect ZEP_API_URL ZEP_API_KEY # polls_events recorded_run ''babbage'' 0 3\<rparr>"
  have ret: "wait_for_ready recorded_run ''babbage'' = Some X"
    using wait_for_ready_first_ready [of recorded_run 2 "''babbage''"]
    by (simp add: recorded_run_simps less_two_cases X_def)
  have "printed (trace X) = map (\<lambda>i. progress_line (recorded_run i)) [0..<fetched X]"
    using wait_for_ready_one_line_per_poll
      [of recorded_run "''babbage''" "\<lparr>fetched = 0, trace = [Connect ZEP_API_URL ZEP_API_KEY]\<rparr>"]
      ret
    by blast
  moreover have "fetched X = 3" by (simp add: X_def)
  ultimately have "printed (trace X) =
      [''Embedding status: 0/402 documents embedded'',
       ''Embedding status: 0/402 documents embedded'',
       ''Embedding status: 402/402 documents embedded'']"
    by (simp add: upt_three recorded_run_simps progress_line_recorded)
  with ret show ?thesis by simp
qed

subsection \<open>Only the status decides\<close>

text \<open>
  Claim C9: two response sequences with the same status at every poll, whatever their
  counts, make the poller fetch the same number of times and return or run forever
  alike. In particular a response with status \<open>ready\<close> ends the loop at that pass,
  whatever its counts are: the counts are printed and never compared.
\<close>

theorem wait_for_ready_depends_on_status_only:
  assumes same: "\<forall>i. status (env1 i) = status (env2 i)"
  shows "map_option fetched (wait_for_ready env1 nm) = map_option fetched (wait_for_ready env2 nm)
    \<and> (wait_for_ready env1 nm = None) = (wait_for_ready env2 nm = None)
    \<and> (status (env1 (fetched s)) = ''ready'' \<longrightarrow>
         snd (loop_body env1 nm s) \<and> wait_loop env1 nm s = Some (fst (loop_body env1 nm s)))"
proof -
  have a: "map_option fetched (wait_for_ready env1 nm) =
      map_option fetched (wait_for_ready env2 nm)"
  proof (cases "\<exists>n. status (env1 n) = ''ready''")
    case True
    define m where "m = (LEAST n. status (env1 n) = ''ready'')"
    have r1: "status (env1 m) = ''ready''" unfolding m_def using True by (rule LeastI_ex)
    have n1: "\<forall>i<m. status (env1 i) \<noteq> ''ready''"
      unfolding m_def using not_less_Least by blast
    from r1 same have r2: "status (env2 m) = ''ready''" by simp
    from n1 same have n2: "\<forall>i<m. status (env2 i) \<noteq> ''ready''" by simp
    show ?thesis
      by (simp add: wait_for_ready_first_ready [OF r1 n1] wait_for_ready_first_ready [OF r2 n2])
  next
    case False
    then have d1: "\<forall>n. status (env1 n) \<noteq> ''ready''" by blast
    with same have d2: "\<forall>n. status (env2 n) \<noteq> ''ready''" by simp
    show ?thesis
      by (simp add: wait_for_ready_diverges [OF d1] wait_for_ready_diverges [OF d2])
  qed
  then have b: "(wait_for_ready env1 nm = None) = (wait_for_ready env2 nm = None)"
    by (metis option.map_disc_iff)
  have c: "status (env1 (fetched s)) = ''ready'' \<longrightarrow>
         snd (loop_body env1 nm s) \<and> wait_loop env1 nm s = Some (fst (loop_body env1 nm s))"
    by (simp add: wait_loop_break loop_body_eq)
  from a b c show ?thesis by blast
qed

text \<open>
  A store that says \<open>ready\<close> with 0 of 402 documents embedded releases the poller after
  one fetch, as does one that says \<open>ready\<close> with 402 of 402.
\<close>

theorem wait_for_ready_depends_on_status_only_witness:
  "document_embedded_count (ready_unembedded 0) < document_count (ready_unembedded 0)
   \<and> map_option fetched (wait_for_ready ready_unembedded ''babbage'') = Some 1
   \<and> map_option fetched (wait_for_ready ready_embedded ''babbage'') = Some 1"
proof -
  have r: "wait_for_ready ready_embedded ''babbage'' =
    Some \<lparr>fetched = Suc 0,
      trace = Connect ZEP_API_URL ZEP_API_KEY # polls_events ready_embedded ''babbage'' 0 (Suc 0)\<rparr>"
    by (rule wait_for_ready_first_ready) (simp_all add: ready_embedded_def)
  from wait_for_ready_depends_on_status_only
    [of ready_unembedded ready_embedded "''babbage''"
      "\<lparr>fetched = 0, trace = [Connect ZEP_API_URL ZEP_API_KEY]\<rparr>"] r
  show ?thesis
    by (simp add: ready_unembedded_def ready_embedded_def)
qed

subsection \<open>Print and sleep come before the test\<close>

text \<open>
  Claim C10: every pass appends a fetch, a printed line and a one-second sleep to the
  trace, whatever the status of the response. So every run that returns starts, after
  the connection, with a fetch, a progress line and a sleep, and has printed at least
  one line and slept at least one second; this holds also when the very first response
  is \<open>ready\<close>, where the run is exactly that one pass.
\<close>

theorem wait_for_ready_prints_and_sleeps_first:
  "trace (fst (loop_body env nm s)) =
      trace s @ [Fetch nm, Print (progress_line (env (fetched s))), Sleep 1]
   \<and> (\<forall>s'. wait_for_ready env nm = Some s' \<longrightarrow>
        (\<exists>rest. trace s' = [Connect ZEP_API_URL ZEP_API_KEY,
                   Fetch nm, Print (progress_line (env 0)), Sleep 1] @ rest) \<and>
        1 \<le> length (printed (trace s')) \<and> 1 \<le> slept (trace s'))
   \<and> (status (env 0) = ''ready'' \<longrightarrow>
        wait_for_ready env nm =
          Some \<lparr>fetched = 1,
                trace = [Connect ZEP_API_URL ZEP_API_KEY,
                   Fetch nm, Print (progress_line (env 0)), Sleep 1]\<rparr>)"
proof -
  have a: "trace (fst (loop_body env nm s)) =
      trace s @ [Fetch nm, Print (progress_line (env (fetched s))), Sleep 1]"
    by (simp add: loop_body_eq poll_events_def)
  have b: "(\<exists>rest. trace s' = [Connect ZEP_API_URL ZEP_API_KEY,
                   Fetch nm, Print (progress_line (env 0)), Sleep 1] @ rest) \<and>
        1 \<le> length (printed (trace s')) \<and> 1 \<le> slept (trace s')"
    if "wait_for_ready env nm = Some s'" for s'
  proof -
    from wait_for_ready_SomeD [OF that] obtain n where
      s': "s' = \<lparr>fetched = Suc n,
        trace = Connect ZEP_API_URL ZEP_API_KEY # polls_events env nm 0 (Suc n)\<rparr>"
      by blast
    have st: "polls_events env nm 0 (Suc n) =
        poll_events env nm 0 @ polls_events env nm (Suc 0) (Suc n)"
      by (rule polls_events_step) simp
    have p: "printed (polls_events env nm 0 (Suc n)) =
        map (\<lambda>i. progress_line (env i)) [0..<Suc n]"
      by (rule printed_polls_events) simp
    have sl: "slept (polls_events env nm 0 (Suc n)) = Suc n - 0"
      by (rule slept_polls_events) simp
    have "trace s' = [Connect ZEP_API_URL ZEP_API_KEY,
        Fetch nm, Print (progress_line (env 0)), Sleep 1] @ polls_events env nm (Suc 0) (Suc n)"
      using s' st by (simp add: poll_events_def)
    moreover have "1 \<le> length (printed (trace s'))" using s' p by simp
    moreover have "1 \<le> slept (trace s')" using s' sl by simp
    ultimately show ?thesis by blast
  qed
  have c: "status (env 0) = ''ready'' \<longrightarrow>
        wait_for_ready env nm =
          Some \<lparr>fetched = 1,
                trace = [Connect ZEP_API_URL ZEP_API_KEY,
                   Fetch nm, Print (progress_line (env 0)), Sleep 1]\<rparr>"
    by (simp add: wait_for_ready_first_ready polls_events_single poll_events_def)
  from a b c show ?thesis by blast
qed

text \<open>A store that is ready at once: one fetch, one line, one second of sleep, then the return.\<close>

theorem wait_for_ready_prints_and_sleeps_first_witness:
  "wait_for_ready ready_embedded ''babbage'' =
     Some \<lparr>fetched = 1,
           trace = [Connect ''http://localhost:8000'' ''<optional_key>'', Fetch ''babbage'',
             Print ''Embedding status: 402/402 documents embedded'', Sleep 1]\<rparr>"
  using wait_for_ready_prints_and_sleeps_first
    [of ready_embedded "''babbage''" "\<lparr>fetched = 0, trace = [Connect ZEP_API_URL ZEP_API_KEY]\<rparr>"]
  by (simp add: ready_embedded_def progress_line_recorded ZEP_API_URL_def ZEP_API_KEY_def)

section \<open>Properties of the query client\<close>

lemma descending_uminus_sorted: "sorted (map uminus xs) \<Longrightarrow> descending xs"
  by (induction xs rule: descending.induct) auto

lemma descending_distinct: "descending xs \<Longrightarrow> distinct xs \<Longrightarrow> strictly_descending xs"
  by (induction xs rule: descending.induct) auto

lemma similarity_search_sorted:
  "sorted (map (\<lambda>r. - snd r) (similarity_search relevance docs query k min_score filt))"
  unfolding similarity_search_def
  by (simp add: sorted_wrt_take flip: take_map)

lemma similarity_search_member:
  "r \<in> set (similarity_search relevance docs query k min_score filt) \<Longrightarrow>
   passes filt (fst r) \<and> above min_score (snd r) \<and> fst r \<in> set docs \<and>
   snd r = relevance query (fst r)"
  unfolding similarity_search_def
  by (auto dest!: in_set_takeD)

lemma recorded_similarity_result:
  "asimilarity_search_with_relevance_scores recorded_scores babbage_chunks
      ''what is the structure of our solar system?'' 3 =
   [(chunk ''Tables necessary to determine the places of the planets'' babbage_source,
       0.8998482592744614),
    (chunk ''tabulate the motions of the four satellites of Jupiter'' babbage_source,
       0.8976143854195493),
    (chunk ''the scheme of notation thus applied'' babbage_source, 0.889982614061763)]"
  by (simp add: asimilarity_search_with_relevance_scores_def similarity_search_def
      babbage_chunks_def recorded_scores_def chunk_def passes_def above_def)

lemma recorded_unfiltered_result:
  "asearch_similarity astronomy_scores two_books ''Was he interested in astronomy?'' 3 None =
   [chunk ''by that body to Mr Babbage'' babbage_source,
    chunk ''possess all knowledge which is likely to be useful'' holmes_source,
    chunk ''in all its relations; but above all, with Astronomy'' babbage_source]"
  by (simp add: asearch_similarity_def similarity_search_def two_books_def astronomy_scores_def
      chunk_def passes_def above_def holmes_source_def babbage_source_def)

lemma recorded_filtered_result:
  "asearch_similarity astronomy_scores two_books ''Was he interested in astronomy?'' 3
      (Some (FieldEquals ''source'' holmes_source)) =
   [chunk ''possess all knowledge which is likely to be useful'' holmes_source,
    chunk ''the light shining upon his strong-set aquiline features'' holmes_source,
    chunk ''I glanced at the books upon the table'' holmes_source]"
  by (simp add: asearch_similarity_def similarity_search_def two_books_def astronomy_scores_def
      chunk_def passes_def above_def holmes_source_def babbage_source_def)

subsection \<open>Order of the scores\<close>

text \<open>
  Claim C3, as stated, fails: a similarity search need not return strictly descending
  scores. When the same text is stored twice, both copies have the same score, and the
  two adjacent results are equal in score.
\<close>

theorem similarity_scores_strict_counterexample:
  "\<not> strictly_descending (map snd (asimilarity_search_with_relevance_scores recorded_scores
        twin_chunks ''what is the structure of our solar system?'' 3))"
  by (simp add: asimilarity_search_with_relevance_scores_def similarity_search_def
      twin_chunks_def recorded_scores_def chunk_def passes_def above_def)

text \<open>
  Claim C3, amended: the scores of the results of a similarity search are descending,
  each at least as large as the next; they are strictly descending whenever no two
  results have the same score.
\<close>

theorem similarity_scores_descending:
  "descending (map snd (asimilarity_search_with_relevance_scores relevance docs query k))
   \<and> (distinct (map snd (asimilarity_search_with_relevance_scores relevance docs query k)) \<longrightarrow>
        strictly_descending
          (map snd (asimilarity_search_with_relevance_scores relevance docs query k)))"
proof -
  let ?rs = "asimilarity_search_with_relevance_scores relevance docs query k"
  have "sorted (map uminus (map snd ?rs))"
    using similarity_search_sorted [of relevance docs query k None None]
    by (simp add: asimilarity_search_with_relevance_scores_def comp_def)
  then have d: "descending (map snd ?rs)" by (rule descending_uminus_sorted)
  then show ?thesis by (simp add: descending_distinct)
qed

text \<open>The recorded query: three distinct scores, returned in strictly descending order.\<close>

theorem similarity_scores_descending_witness:
  "distinct (map snd (asimilarity_search_with_relevance_scores recorded_scores babbage_chunks
      ''what is the structure of our solar system?'' 3))
   \<and> strictly_descending (map snd (asimilarity_search_with_relevance_scores recorded_scores
      babbage_chunks ''what is the structure of our solar system?'' 3))"
  using similarity_scores_descending
    [of recorded_scores babbage_chunks "''what is the structure of our solar system?''" 3]
  by (simp add: recorded_similarity_result)

subsection \<open>Filtering by source\<close>

text \<open>
  Claim C4: every document returned by a similarity search filtered on
  \<open>source\<close> being \<open>a\<close> has \<open>a\<close> as the source in its metadata, and none of them has
  another source \<open>b\<close>.
\<close>

theorem filtered_search_only_matching_source:
  "\<forall>d \<in> set (asearch_similarity relevance docs query k (Some (FieldEquals ''source'' a))).
      map_of (metadata d) ''source'' = Some a \<and>
      (b \<noteq> a \<longrightarrow> map_of (metadata d) ''source'' \<noteq> Some b)"
proof
  fix d
  assume "d \<in> set (asearch_similarity relevance docs query k (Some (FieldEquals ''source'' a)))"
  then obtain r where
    r: "r \<in> set (similarity_search relevance docs query k None (Some (FieldEquals ''source'' a)))"
    and d: "d = fst r"
    by (auto simp: asearch_similarity_def)
  from similarity_search_member [OF r] d
  have "map_of (metadata d) ''source'' = Some a" by (simp add: passes_def)
  then show "map_of (metadata d) ''source'' = Some a \<and>
      (b \<noteq> a \<longrightarrow> map_of (metadata d) ''source'' \<noteq> Some b)" by simp
qed

text \<open>
  The two books, filtered on the second: the search returns a chunk of the second book,
  and that chunk does not carry the source of the first.
\<close>

theorem filtered_search_only_matching_source_witness:
  "chunk ''possess all knowledge which is likely to be useful'' holmes_source
     \<in> set (asearch_similarity astronomy_scores two_books ''Was he interested in astronomy?'' 3
          (Some (FieldEquals ''source'' holmes_source)))
   \<and> map_of (metadata (chunk ''possess all knowledge which is likely to be useful'' holmes_source))
        ''source'' = Some holmes_source
   \<and> map_of (metadata (chunk ''possess all knowledge which is likely to be useful'' holmes_source))
        ''source'' \<noteq> Some babbage_source"
proof -
  let ?d = "chunk ''possess all knowledge which is likely to be useful'' holmes_source"
  let ?res = "asearch_similarity astronomy_scores two_books ''Was he interested in astronomy?'' 3
          (Some (FieldEquals ''source'' holmes_source))"
  have mem: "?d \<in> set ?res" by (simp add: recorded_filtered_result)
  have ne: "babbage_source \<noteq> holmes_source"
    by (simp add: babbage_source_def holmes_source_def)
  from filtered_search_only_matching_source
    [of astronomy_scores two_books "''Was he interested in astronomy?''" 3 holmes_source
      babbage_source] mem ne
  show ?thesis by blast
qed

end
